theory Spec2Isabelle
  imports Complex_Main
begin

section \<open>The client-side store (the local-state \<open>App\<close> and its components)\<close>

text \<open>
  The local-state application keeps the infringements in a React state array and every
  handler is a pure update of that array. The form hands over a record without an id
  (\<open>Omit<Infringement, 'id'>\<close>); \<open>handleNewInfringement\<close> adds the id. A \<open>Date\<close> is the
  number of milliseconds since the epoch. The field \<open>id\<close> is \<open>inf_id\<close> here.
\<close>

record InfringementDraft =
  kartNumber :: string
  turn :: string
  observer :: string
  infringement :: string
  penaltyDescription :: string
  penaltyApplied :: bool
  timestamp :: int

record Infringement = InfringementDraft +
  inf_id :: string

text \<open>
  The five \<open>useState\<close> strings of \<open>InfringementForm\<close> and of \<open>EditInfringementDialog\<close>:
  \<open>kartNumber\<close>, \<open>turn\<close>, \<open>observer\<close>, \<open>infringement\<close> (\<open>infringementType\<close> in the dialog)
  and \<open>penaltyDescription\<close>.
\<close>

record FormFields =
  kartNumberInput :: string
  turnInput :: string
  observerInput :: string
  infringementInput :: string
  penaltyDescriptionInput :: string

text \<open>
  \<open>PendingPenalties\<close>: \<open>infringements.filter((inf) => !inf.penaltyApplied &&
  inf.penaltyDescription !== 'Warning')\<close>.
\<close>

definition pendingPenalties :: "Infringement list \<Rightarrow> Infringement list" where
  "pendingPenalties infringements =
     filter (\<lambda>entry. \<not> penaltyApplied entry \<and> penaltyDescription entry \<noteq> ''Warning'') infringements"

text \<open>
  \<open>handleApplyPenalty\<close>: \<open>prev.map((inf) => inf.id === id ? { ...inf, penaltyApplied: true }
  : inf)\<close>.
\<close>

definition handleApplyPenalty :: "string \<Rightarrow> Infringement list \<Rightarrow> Infringement list" where
  "handleApplyPenalty ident prev =
     map (\<lambda>entry. if inf_id entry = ident then entry\<lparr>penaltyApplied := True\<rparr> else entry) prev"

text \<open>
  \<open>handleSaveEdit\<close>: \<open>prev.map((inf) => inf.id === updatedInfringement.id ?
  updatedInfringement : inf)\<close>.
\<close>

definition handleSaveEdit :: "Infringement \<Rightarrow> Infringement list \<Rightarrow> Infringement list" where
  "handleSaveEdit updatedInfringement prev =
     map (\<lambda>entry. if inf_id entry = inf_id updatedInfringement then updatedInfringement else entry) prev"

text \<open>\<open>handleDeleteInfringement\<close>: \<open>prev.filter((inf) => inf.id !== id)\<close>.\<close>

definition handleDeleteInfringement :: "string \<Rightarrow> Infringement list \<Rightarrow> Infringement list" where
  "handleDeleteInfringement ident prev = filter (\<lambda>entry. inf_id entry \<noteq> ident) prev"

text \<open>
  \<open>handleNewInfringement\<close>: the id is \<open>crypto.randomUUID()\<close>, a parameter here; the new record
  goes to the front of the array.
\<close>

definition handleNewInfringement ::
  "string \<Rightarrow> InfringementDraft \<Rightarrow> Infringement list \<Rightarrow> Infringement list" where
  "handleNewInfringement uuid d prev =
     \<lparr>kartNumber = kartNumber d, turn = turn d, observer = observer d,
      infringement = infringement d, penaltyDescription = penaltyDescription d,
      penaltyApplied = penaltyApplied d, timestamp = timestamp d, inf_id = uuid\<rparr> # prev"

text \<open>
  \<open>handleSubmit\<close> of \<open>InfringementForm\<close>: an early \<open>return\<close> (here \<open>None\<close>: \<open>onSubmit\<close> is not
  called) when one of the five strings is empty, since \<open>!s\<close> holds for the empty string
  only; otherwise the draft goes to \<open>onSubmit\<close>, with \<open>penaltyApplied: false\<close> and
  \<open>timestamp: new Date()\<close> (the parameter \<open>now\<close>).
\<close>

definition handleSubmit :: "FormFields \<Rightarrow> int \<Rightarrow> InfringementDraft option" where
  "handleSubmit f now =
     (if kartNumberInput f = [] \<or> turnInput f = [] \<or> observerInput f = [] \<or>
         infringementInput f = [] \<or> penaltyDescriptionInput f = []
      then None
      else Some \<lparr>kartNumber = kartNumberInput f, turn = turnInput f,
                 observer = observerInput f, infringement = infringementInput f,
                 penaltyDescription = penaltyDescriptionInput f,
                 penaltyApplied = False, timestamp = now\<rparr>)"

text \<open>
  Submitting the form in the application: \<open>InfringementForm\<close> is mounted with
  \<open>onSubmit={handleNewInfringement}\<close>.
\<close>

definition submitForm :: "FormFields \<Rightarrow> int \<Rightarrow> string \<Rightarrow> Infringement list \<Rightarrow> Infringement list" where
  "submitForm f now uuid prev =
     (case handleSubmit f now of
        None \<Rightarrow> prev
      | Some d \<Rightarrow> handleNewInfringement uuid d prev)"

text \<open>
  \<open>handleSave\<close> of \<open>EditInfringementDialog\<close>: an early \<open>return\<close> when there is no infringement
  being edited or one of the five strings is empty; otherwise \<open>{ ...infringement, kartNumber,
  turn, observer, infringement: infringementType, penaltyDescription }\<close> goes to \<open>onSave\<close>.
\<close>

definition handleSave :: "Infringement option \<Rightarrow> FormFields \<Rightarrow> Infringement option" where
  "handleSave editing f =
     (case editing of
        None \<Rightarrow> None
      | Some entry \<Rightarrow>
          if kartNumberInput f = [] \<or> turnInput f = [] \<or> observerInput f = [] \<or>
             infringementInput f = [] \<or> penaltyDescriptionInput f = []
          then None
          else Some (entry\<lparr>kartNumber := kartNumberInput f, turn := turnInput f,
                         observer := observerInput f, infringement := infringementInput f,
                         penaltyDescription := penaltyDescriptionInput f\<rparr>))"

section \<open>The server-backed application (\<open>App.tsx\<close>, \<open>InfringementLog\<close> and its popup)\<close>

text \<open>
  Modelled from the spec: the type \<open>InfringementRecord\<close> is declared in \<open>api.ts\<close>, which is not
  among the sources. The fields are those of the spec's data model, which are also the ones
  the components read: \<open>penalty_description\<close>, \<open>turn_number\<close> and \<open>observer\<close> may be absent
  (the table shows a dash for them), \<open>kart_number\<close> and \<open>id\<close> are integers. The \<open>timestamp\<close>
  is kept as the instant \<open>new Date(inf.timestamp).getTime()\<close> yields, in milliseconds. The
  fields \<open>id\<close>, \<open>observer\<close> and \<open>timestamp\<close> are \<open>rec_id\<close>, \<open>rec_observer\<close> and
  \<open>rec_timestamp\<close> here.
\<close>

record InfringementRecord =
  rec_id :: int
  kart_number :: int
  turn_number :: "int option"
  rec_observer :: "string option"
  description :: string
  penalty_description :: "string option"
  penalty_due :: string
  penalty_taken :: bool
  performed_by :: string
  rec_timestamp :: int

subsection \<open>Status of a record\<close>

text \<open>
  \<open>(now.getTime() - timestamp.getTime()) / (1000 * 60)\<close>: the minutes elapsed since the
  timestamp. The difference and the quotient are exact here, where the source computes
  them in binary64: the two differ only when the times are more than \<open>2^53\<close> milliseconds
  apart, which no clock reaches. The expiry is a rational as well.
\<close>

definition diffMinutes :: "int \<Rightarrow> int \<Rightarrow> rat" where
  "diffMinutes now ts = of_int (now - ts) / (1000 * 60)"

text \<open>
  The status column of \<open>InfringementLog\<close> (the body of \<open>filteredInfringements.map\<close>), as a
  function of the property \<open>warningExpiryMinutes\<close>, the clock and the record. The local
  constant \<open>penaltyApplied\<close> of the source is \<open>isApplied\<close> here.
\<close>

definition statusLabel :: "rat \<Rightarrow> int \<Rightarrow> InfringementRecord \<Rightarrow> string" where
  "statusLabel warningExpiryMinutes now r =
     (let isWarning = (penalty_description r = Some ''Warning'');
          isExpiredWarning =
            (isWarning \<and> diffMinutes now (rec_timestamp r) > warningExpiryMinutes);
          isApplied = (penalty_due r = ''No'' \<and> penalty_taken r \<and> \<not> isWarning)
      in if isApplied then ''Applied''
         else if isExpiredWarning then ''Expired''
         else if isWarning then ''Warning''
         else if penalty_due r = ''Yes'' then ''Pending''
         else ''Cleared'')"

text \<open>
  \<open>isExpired\<close>: the component's function and the one in the popup's script have the same
  body; the bound is \<open>warningExpiryMinutes\<close> in the former and the script's constant
  \<open>WARNING_EXPIRY_MINUTES\<close> in the latter.
\<close>

definition isExpired :: "rat \<Rightarrow> int \<Rightarrow> InfringementRecord \<Rightarrow> bool" where
  "isExpired expiry now r =
     (if penalty_description r \<noteq> Some ''Warning'' then False
      else diffMinutes now (rec_timestamp r) > expiry)"

text \<open>\<open>getStatus\<close> of the popup's script.\<close>

definition getStatus :: "rat \<Rightarrow> int \<Rightarrow> InfringementRecord \<Rightarrow> string" where
  "getStatus WARNING_EXPIRY_MINUTES now r =
     (let isW = (penalty_description r = Some ''Warning'');
          applied = (penalty_due r = ''No'' \<and> penalty_taken r \<and> \<not> isW)
      in if applied then ''Applied''
         else if isExpired WARNING_EXPIRY_MINUTES now r then ''Expired''
         else if isW then ''Warning''
         else if penalty_due r = ''Yes'' then ''Pending''
         else ''Cleared'')"

text \<open>
  \<open>handleExpand\<close> writes \<open>warningExpiryMinutes || 180\<close> into the script as
  \<open>WARNING_EXPIRY_MINUTES\<close>: the number 0 is falsy.
\<close>

definition expiryMins :: "rat \<Rightarrow> rat" where
  "expiryMins warningExpiryMinutes = (if warningExpiryMinutes = 0 then 180 else warningExpiryMinutes)"

text \<open>
  The status the popup shows for a record when the component has the property
  \<open>warningExpiryMinutes\<close>: \<open>handleExpand\<close> computes \<open>expiryMins\<close>, writes it into the script as
  \<open>WARNING_EXPIRY_MINUTES\<close>, and the script's \<open>refreshTable\<close> calls \<open>getStatus\<close>.
\<close>

definition popupStatus :: "rat \<Rightarrow> int \<Rightarrow> InfringementRecord \<Rightarrow> string" where
  "popupStatus warningExpiryMinutes now r = getStatus (expiryMins warningExpiryMinutes) now r"

text \<open>
  The derived status in the words of the specification, for comparison with the two
  functions above: the elapsed time and the expiry window are compared in milliseconds.
\<close>

datatype Status = Applied | Expired | Warning | Pending | Cleared

definition derivedStatus :: "rat \<Rightarrow> int \<Rightarrow> InfringementRecord \<Rightarrow> Status" where
  "derivedStatus expiry now r =
     (if penalty_due r = ''No'' \<and> penalty_taken r = True \<and> penalty_description r \<noteq> Some ''Warning''
      then Applied
      else if penalty_description r = Some ''Warning'' \<and>
              of_int (now - rec_timestamp r) > expiry * 60000
      then Expired
      else if penalty_description r = Some ''Warning'' then Warning
      else if penalty_due r = ''Yes'' then Pending
      else Cleared)"

fun statusName :: "Status \<Rightarrow> string" where
  "statusName Applied = ''Applied''"
| "statusName Expired = ''Expired''"
| "statusName Warning = ''Warning''"
| "statusName Pending = ''Pending''"
| "statusName Cleared = ''Cleared''"

subsection \<open>Strings and numbers of the language\<close>

text \<open>
  The kart-number filter compares with \<open>Number(...)\<close>, so the conversion of a string to a
  number (ECMAScript's StringToNumber) is part of the model. A string is a list of
  characters below 256. A number is not-a-number, an infinity or a finite value; the
  finite values are exact rationals rather than binary64 values, and the two zeros are one.
  So a literal is not rounded and does not overflow here: \<open>42.0000000000000000001\<close> reads
  as 42 in the language and as a value above 42 here, and \<open>1e400\<close> as Infinity in the
  language and as a finite value here. Integers of up to fifteen digits, such as kart
  numbers, and the empty string read the same in both.
  \<open>===\<close> on numbers is equality except that not-a-number equals nothing.
\<close>

datatype number = NaN | Finite rat | Infinity | NegInfinity

text \<open>\<open>a === b\<close> on two numbers.\<close>

definition strictEquals :: "number \<Rightarrow> number \<Rightarrow> bool" where
  "strictEquals a b = (a \<noteq> NaN \<and> b \<noteq> NaN \<and> a = b)"

text \<open>
  White space and line terminators below 256: tab, line feed, vertical tab, form feed,
  carriage return, space and no-break space. \<open>trim\<close> removes them at both ends.
\<close>

definition isWhiteSpace :: "char \<Rightarrow> bool" where
  "isWhiteSpace c = (of_char c \<in> {9, 10, 11, 12, 13, 32, 160 :: nat})"

definition trim :: "string \<Rightarrow> string" where
  "trim s = rev (dropWhile isWhiteSpace (rev (dropWhile isWhiteSpace s)))"

text \<open>
  \<open>toLowerCase\<close>: the capital letters below 256 are A to Z and the accented capitals from
  192 to 222 without the multiplication sign 215; the small letter is 32 further on.
\<close>

definition toLowerCase :: "string \<Rightarrow> string" where
  "toLowerCase s =
     map (\<lambda>c. let n = (of_char c :: nat)
               in if (65 \<le> n \<and> n \<le> 90) \<or> (192 \<le> n \<and> n \<le> 222 \<and> n \<noteq> 215)
                  then char_of (n + 32) else c) s"

text \<open>Decimal digits, and the value of a run of them read from the left.\<close>

definition isDigit :: "char \<Rightarrow> bool" where
  "isDigit c = (48 \<le> (of_char c :: nat) \<and> (of_char c :: nat) \<le> 57)"

definition digitValue :: "char \<Rightarrow> nat" where
  "digitValue c = of_char c - 48"

fun digitsValue :: "nat \<Rightarrow> string \<Rightarrow> nat" where
  "digitsValue acc [] = acc"
| "digitsValue acc (c # cs) = digitsValue (10 * acc + digitValue c) cs"

text \<open>
  The literals \<open>0x\<close>, \<open>0o\<close> and \<open>0b\<close>: at least one digit of the radix after the
  prefix, and no sign.
\<close>

definition radixDigit :: "nat \<Rightarrow> char \<Rightarrow> nat option" where
  "radixDigit radix c =
     (let n = (of_char c :: nat);
          d = (if 48 \<le> n \<and> n \<le> 57 then n - 48
               else if 97 \<le> n \<and> n \<le> 102 then n - 87
               else if 65 \<le> n \<and> n \<le> 70 then n - 55
               else radix)
      in if d < radix then Some d else None)"

fun radixValue :: "nat \<Rightarrow> nat \<Rightarrow> string \<Rightarrow> nat option" where
  "radixValue radix acc [] = Some acc"
| "radixValue radix acc (c # cs) =
     (case radixDigit radix c of
        None \<Rightarrow> None
      | Some d \<Rightarrow> radixValue radix (radix * acc + d) cs)"

definition nonDecimalIntegerLiteral :: "string \<Rightarrow> nat option" where
  "nonDecimalIntegerLiteral s =
     (case s of
        c0 # c1 # ds \<Rightarrow>
          if c0 = CHR ''0'' \<and> ds \<noteq> [] then
            (if c1 = CHR ''x'' \<or> c1 = CHR ''X'' then radixValue 16 0 ds
             else if c1 = CHR ''o'' \<or> c1 = CHR ''O'' then radixValue 8 0 ds
             else if c1 = CHR ''b'' \<or> c1 = CHR ''B'' then radixValue 2 0 ds
             else None)
          else None
      | _ \<Rightarrow> None)"

text \<open>
  The exponent part of a decimal literal: nothing, or \<open>e\<close> or \<open>E\<close>, an optional sign and at
  least one digit, up to the end of the string.
\<close>

definition exponentDigits :: "string \<Rightarrow> int option" where
  "exponentDigits ds =
     (if ds \<noteq> [] \<and> list_all isDigit ds then Some (int (digitsValue 0 ds)) else None)"

definition exponentPart :: "string \<Rightarrow> int option" where
  "exponentPart s =
     (case s of
        [] \<Rightarrow> Some 0
      | c # t \<Rightarrow>
          if c = CHR ''e'' \<or> c = CHR ''E'' then
            (case t of
               [] \<Rightarrow> None
             | sg # ds \<Rightarrow>
                 if sg = CHR ''+'' then exponentDigits ds
                 else if sg = CHR ''-'' then map_option uminus (exponentDigits ds)
                 else exponentDigits t)
          else None)"

text \<open>\<open>m\<close> times ten to the power \<open>e\<close>.\<close>

definition scale10 :: "rat \<Rightarrow> int \<Rightarrow> rat" where
  "scale10 m e = (if 0 \<le> e then m * 10 ^ nat e else m / 10 ^ nat (- e))"

text \<open>
  An unsigned decimal literal: \<open>Infinity\<close>, or digits with an optional fraction, or a
  fraction alone, each with an optional exponent. Anything else is not a number.
\<close>

definition unsignedDecimal :: "string \<Rightarrow> number" where
  "unsignedDecimal s =
     (if s = ''Infinity'' then Infinity
      else
        let ip = takeWhile isDigit s;
            r1 = dropWhile isDigit s;
            hasDot = (case r1 of [] \<Rightarrow> False | c # t \<Rightarrow> c = CHR ''.'');
            fp = (if hasDot then takeWhile isDigit (tl r1) else []);
            r2 = (if hasDot then dropWhile isDigit (tl r1) else r1)
        in if ip = [] \<and> fp = [] then NaN
           else case exponentPart r2 of
                  None \<Rightarrow> NaN
                | Some e \<Rightarrow> Finite (scale10 (of_nat (digitsValue 0 (ip @ fp))) (e - int (length fp))))"

text \<open>A decimal literal with its optional sign.\<close>

definition negate :: "number \<Rightarrow> number" where
  "negate x = (case x of NaN \<Rightarrow> NaN | Finite q \<Rightarrow> Finite (- q)
                 | Infinity \<Rightarrow> NegInfinity | NegInfinity \<Rightarrow> Infinity)"

definition strDecimalLiteral :: "string \<Rightarrow> number" where
  "strDecimalLiteral s =
     (case s of
        [] \<Rightarrow> NaN
      | c # t \<Rightarrow>
          if c = CHR ''+'' then unsignedDecimal t
          else if c = CHR ''-'' then negate (unsignedDecimal t)
          else unsignedDecimal s)"

text \<open>
  \<open>Number(str)\<close>: white space at both ends is dropped; the empty string is 0; otherwise the
  whole string has to be one numeric literal.
\<close>

definition Number :: "string \<Rightarrow> number" where
  "Number str =
     (let s = trim str
      in if s = [] then Finite 0
         else case nonDecimalIntegerLiteral s of
                Some n \<Rightarrow> Finite (of_nat n)
              | None \<Rightarrow> strDecimalLiteral s)"

text \<open>
  \<open>n.toString()\<close> for an integer: the decimal digits, with a minus sign for a negative
  number (kart numbers are far below \<open>1e21\<close>, where the exponent notation begins).
\<close>

function natToString :: "nat \<Rightarrow> string" where
  "natToString n =
     (if n < 10 then [char_of (48 + n)]
      else natToString (n div 10) @ [char_of (48 + n mod 10)])"
  by pat_completeness auto
termination
  by (relation "measure id") auto

declare natToString.simps [simp del]

definition toString :: "int \<Rightarrow> string" where
  "toString k = (if k < 0 then CHR ''-'' # natToString (nat (- k)) else natToString (nat k))"

subsection \<open>The kart-number filter\<close>

text \<open>
  \<open>filteredInfringements\<close> of \<open>InfringementLog\<close>: the search string is tested for emptiness
  before it is trimmed.
\<close>

definition filteredInfringements :: "string \<Rightarrow> InfringementRecord list \<Rightarrow> InfringementRecord list" where
  "filteredInfringements searchKartNumber infringements =
     (if searchKartNumber \<noteq> []
      then filter (\<lambda>entry.
             let searchValue = trim searchKartNumber;
                 kartNum = toString (kart_number entry)
             in kartNum = searchValue \<or> strictEquals (Number kartNum) (Number searchValue))
           infringements
      else infringements)"

text \<open>
  The filter in \<open>refreshTable\<close> of the popup's script, on the value of the search input and the
  fetched records: the value is trimmed and lower-cased before it is tested for emptiness.
\<close>

definition refreshTable_filter :: "string \<Rightarrow> InfringementRecord list \<Rightarrow> InfringementRecord list" where
  "refreshTable_filter searchInput d =
     (let sv = toLowerCase (trim searchInput)
      in if sv \<noteq> []
         then filter (\<lambda>i.
                let kn = toString (kart_number i)
                in kn = sv \<or> strictEquals (Number kn) (Number sv)) d
         else d)"

subsection \<open>Deleting through the API\<close>

text \<open>
  Modelled from the spec: the type \<open>PendingPenalty\<close> is declared in \<open>api.ts\<close>, which is not
  among the sources; a pending penalty is a read projection of an infringement record and is
  kept as one here. The state is the part of \<open>App\<close>'s state that \<open>handleDeleteInfringement\<close>
  touches. A toast is \<open>toast.success(message)\<close> or \<open>toast.error(title, { description })\<close>.
\<close>

datatype toast = ToastSuccess string | ToastError string string

record AppState =
  st_infringements :: "InfringementRecord list"
  st_pendingPenalties :: "InfringementRecord list"
  st_toasts :: "toast list"

text \<open>
  \<open>handleDeleteInfringement\<close> of \<open>App.tsx\<close>. The request \<open>deleteInfringement(id)\<close> of \<open>api.ts\<close> is
  a parameter: it returns, or it throws an error with a message (\<open>Inl\<close>; the empty message
  stands for a missing one). When it throws, the \<open>catch\<close> block shows a toast and the lists
  stay as they are.
\<close>

definition handleDeleteInfringement_api ::
  "(int \<Rightarrow> string + unit) \<Rightarrow> int \<Rightarrow> AppState \<Rightarrow> AppState" where
  "handleDeleteInfringement_api deleteInfringement ident st =
     (case deleteInfringement ident of
        Inl message \<Rightarrow>
          st\<lparr>st_toasts := st_toasts st @
               [ToastError ''Error Deleting Infringement''
                  (if message \<noteq> [] then message else ''Failed to delete infringement'')]\<rparr>
      | Inr _ \<Rightarrow>
          st\<lparr>st_infringements := filter (\<lambda>entry. rec_id entry \<noteq> ident) (st_infringements st),
             st_pendingPenalties := filter (\<lambda>penalty. rec_id penalty \<noteq> ident) (st_pendingPenalties st),
             st_toasts := st_toasts st @ [ToastSuccess ''Infringement deleted successfully'']\<rparr>)"

section \<open>Operations that may fail, and example data\<close>

text \<open>
  The failures the specification names for the operations of the store. The handlers of the
  local-state application have no \<open>throw\<close> and no early \<open>return\<close>: seen as operations that
  may fail, they always return the new list.
\<close>

datatype error = NotFound | ValidationError

definition applyPenaltyResult :: "string \<Rightarrow> Infringement list \<Rightarrow> error + Infringement list" where
  "applyPenaltyResult ident prev = Inr (handleApplyPenalty ident prev)"

definition updateResult :: "Infringement \<Rightarrow> Infringement list \<Rightarrow> error + Infringement list" where
  "updateResult updatedInfringement prev = Inr (handleSaveEdit updatedInfringement prev)"

definition deleteResult :: "string \<Rightarrow> Infringement list \<Rightarrow> error + Infringement list" where
  "deleteResult ident prev = Inr (handleDeleteInfringement ident prev)"

text \<open>\<open>sampleData\<close> of the local-state application, at the time \<open>Date.now()\<close>.\<close>

definition sampleData :: "int \<Rightarrow> Infringement list" where
  "sampleData now =
     [\<lparr>kartNumber = ''42'', turn = ''Turn 3'', observer = ''John Smith'',
       infringement = ''Track Limits'', penaltyDescription = ''5 Sec'',
       penaltyApplied = False, timestamp = now - 300000, inf_id = ''1''\<rparr>,
      \<lparr>kartNumber = ''17'', turn = ''Turn 7'', observer = ''Sarah Johnson'',
       infringement = ''Blocking'', penaltyDescription = ''Warning'',
       penaltyApplied = False, timestamp = now - 600000, inf_id = ''2''\<rparr>,
      \<lparr>kartNumber = ''88'', turn = ''Turn 1'', observer = ''Mike Davis'',
       infringement = ''Dangerous Driving'', penaltyDescription = ''Stop and Go'',
       penaltyApplied = True, timestamp = now - 900000, inf_id = ''3''\<rparr>,
      \<lparr>kartNumber = ''23'', turn = ''Turn 5'', observer = ''John Smith'',
       infringement = ''Track Limits'', penaltyDescription = ''Warning'',
       penaltyApplied = False, timestamp = now - 1200000, inf_id = ''4''\<rparr>]"

text \<open>
  A record of the server-backed application for the examples: kart 7, observer J, blocking,
  with the given id, kart number, penalty, \<open>penalty_due\<close>, \<open>penalty_taken\<close> and time.
\<close>

definition exampleRecord ::
  "int \<Rightarrow> int \<Rightarrow> string option \<Rightarrow> string \<Rightarrow> bool \<Rightarrow> int \<Rightarrow> InfringementRecord" where
  "exampleRecord ident kart penalty due taken ts =
     \<lparr>rec_id = ident, kart_number = kart, turn_number = None, rec_observer = Some ''J'',
      description = ''Blocking'', penalty_description = penalty, penalty_due = due,
      penalty_taken = taken, performed_by = ''Race Control Operator'', rec_timestamp = ts\<rparr>"

text \<open>A state of the server-backed application with two records, the first one pending.\<close>

definition exampleState :: AppState where
  "exampleState =
     \<lparr>st_infringements =
        [exampleRecord 1 7 (Some ''5 Sec'') ''Yes'' False 0,
         exampleRecord 2 42 (Some ''Warning'') ''Yes'' False 0],
      st_pendingPenalties = [exampleRecord 1 7 (Some ''5 Sec'') ''Yes'' False 0],
      st_toasts = []\<rparr>"

text \<open>The five strings of a filled-in form.\<close>

definition exampleEdit :: FormFields where
  "exampleEdit =
     \<lparr>kartNumberInput = ''7'', turnInput = ''Turn 4'', observerInput = ''J'',
      infringementInput = ''Blocking'', penaltyDescriptionInput = ''10 Sec''\<rparr>"

section \<open>Pending penalties\<close>

text \<open>
  C3. The pending-penalty list is exactly the infringements whose penalty is not yet applied
  and whose penalty is not a warning: a record is in the list if and only if it is in the
  infringement list, is not applied and is not a warning; the list keeps every such record
  as often as, and in the order in which, the infringement list has it.
\<close>

theorem pendingPenalties_exact:
  "(r \<in> set (pendingPenalties infs) \<longleftrightarrow>
      r \<in> set infs \<and> \<not> penaltyApplied r \<and> penaltyDescription r \<noteq> ''Warning'') \<and>
   count_list (pendingPenalties infs) r =
     (if \<not> penaltyApplied r \<and> penaltyDescription r \<noteq> ''Warning'' then count_list infs r else 0) \<and>
   pendingPenalties (xs @ ys) = pendingPenalties xs @ pendingPenalties ys"
proof (intro conjI)
  show "r \<in> set (pendingPenalties infs) \<longleftrightarrow>
      r \<in> set infs \<and> \<not> penaltyApplied r \<and> penaltyDescription r \<noteq> ''Warning''"
    by (auto simp: pendingPenalties_def)
  show "count_list (pendingPenalties infs) r =
     (if \<not> penaltyApplied r \<and> penaltyDescription r \<noteq> ''Warning'' then count_list infs r else 0)"
    by (induction infs) (auto simp: pendingPenalties_def)
  show "pendingPenalties (xs @ ys) = pendingPenalties xs @ pendingPenalties ys"
    by (simp add: pendingPenalties_def)
qed

section \<open>Status derivation\<close>

lemma diffMinutes_gt: "diffMinutes now ts > w \<longleftrightarrow> of_int (now - ts) > w * 60000"
  by (simp add: diffMinutes_def pos_less_divide_eq)

text \<open>
  The status column of the table computes the status the specification describes, for every
  expiry, and \<open>getStatus\<close> does so for the constant the script holds; the result is one of
  the five labels.
\<close>

lemma statusLabel_derivation:
  "statusLabel w now r = statusName (derivedStatus w now r)"
  by (simp add: statusLabel_def derivedStatus_def diffMinutes_gt)

lemma getStatus_derivation:
  "getStatus c now r = statusName (derivedStatus c now r)"
  by (simp add: getStatus_def isExpired_def derivedStatus_def diffMinutes_gt)

lemma statusName_labels:
  "statusName s \<in> {''Applied'', ''Expired'', ''Warning'', ''Pending'', ''Cleared''}"
  by (cases s) simp_all

text \<open>
  The popup derives the status for the expiry \<open>expiryMins w\<close>, not for \<open>w\<close>: it agrees with
  the table whenever the configured expiry is not 0, and at 0 it derives the status for 180.
\<close>

lemma popupStatus_derivation:
  "popupStatus w now r = statusName (derivedStatus (expiryMins w) now r)"
  by (simp add: popupStatus_def getStatus_derivation)

lemma popupStatus_nonzero:
  "w \<noteq> 0 \<Longrightarrow> popupStatus w now r = statusLabel w now r"
  by (simp add: popupStatus_derivation statusLabel_derivation expiryMins_def)

lemma popupStatus_zero:
  "popupStatus 0 now r = statusLabel 180 now r"
  by (simp add: popupStatus_derivation statusLabel_derivation expiryMins_def)

lemma status_examples:
  "statusLabel 180 now (exampleRecord 1 7 (Some ''5 Sec'') ''No'' True 0) = ''Applied''"
  "statusLabel 180 now (exampleRecord 1 7 (Some ''5 Sec'') ''Yes'' False 0) = ''Pending''"
  "statusLabel 180 now (exampleRecord 1 7 None ''No'' False 0) = ''Cleared''"
  by (simp_all add: statusLabel_def exampleRecord_def)

text \<open>
  C1. The status is meant to be one function of the record, the clock and the configured
  expiry, the same wherever it is shown. With the expiry configured as 0, a warning that is
  ten minutes old is expired: the status the specification describes is Expired, and so is
  the status column of the table. The popup shows Warning for the same record at the same
  time, because \<open>handleExpand\<close> replaces the expiry 0 by 180 before the script derives the
  status.
\<close>

theorem popup_status_differs_at_zero_expiry:
  "statusName (derivedStatus 0 (10 * 60000)
      (exampleRecord 1 7 (Some ''Warning'') ''Yes'' False 0)) = ''Expired'' \<and>
   statusLabel 0 (10 * 60000) (exampleRecord 1 7 (Some ''Warning'') ''Yes'' False 0) = ''Expired'' \<and>
   popupStatus 0 (10 * 60000) (exampleRecord 1 7 (Some ''Warning'') ''Yes'' False 0) = ''Warning''"
proof -
  let ?r = "exampleRecord 1 7 (Some ''Warning'') ''Yes'' False 0"
  have d: "derivedStatus 0 (10 * 60000) ?r = Expired"
    by (simp add: derivedStatus_def exampleRecord_def)
  have l: "statusLabel 0 (10 * 60000) ?r = ''Expired''"
    by (simp add: statusLabel_def exampleRecord_def diffMinutes_def)
  have e: "expiryMins 0 = 180"
    by (simp add: expiryMins_def)
  have p: "popupStatus 0 (10 * 60000) ?r = ''Warning''"
    by (simp add: popupStatus_def e getStatus_def isExpired_def exampleRecord_def diffMinutes_def)
  from d l p show ?thesis by simp
qed

text \<open>
  For a record whose penalty is "Warning", the status column with the property
  \<open>warningExpiryMinutes\<close>, and \<open>getStatus\<close> with the constant \<open>WARNING_EXPIRY_MINUTES\<close> of the
  script, are Expired exactly when the minutes elapsed since the timestamp strictly exceed
  that bound, and Warning otherwise; a record whose penalty is not "Warning" is never
  Expired.
\<close>

lemma warning_flip:
  "(penalty_description r = Some ''Warning'' \<longrightarrow>
      statusLabel w now r =
        (if diffMinutes now (rec_timestamp r) > w then ''Expired'' else ''Warning'') \<and>
      getStatus w now r =
        (if diffMinutes now (rec_timestamp r) > w then ''Expired'' else ''Warning'') \<and>
      isExpired w now r = (diffMinutes now (rec_timestamp r) > w) \<and>
      (diffMinutes now (rec_timestamp r) > w \<longleftrightarrow>
         of_int (now - rec_timestamp r) > w * 60000)) \<and>
   (penalty_description r \<noteq> Some ''Warning'' \<longrightarrow>
      statusLabel w now r \<noteq> ''Expired'' \<and> getStatus w now r \<noteq> ''Expired'' \<and>
      \<not> isExpired w now r)"
proof (cases "penalty_description r = Some ''Warning''")
  case True
  then have "statusLabel w now r =
      (if diffMinutes now (rec_timestamp r) > w then ''Expired'' else ''Warning'')"
    by (simp add: statusLabel_def)
  moreover from True have "isExpired w now r = (diffMinutes now (rec_timestamp r) > w)"
    by (simp add: isExpired_def)
  moreover from this True have "getStatus w now r =
      (if diffMinutes now (rec_timestamp r) > w then ''Expired'' else ''Warning'')"
    by (simp add: getStatus_def)
  ultimately show ?thesis
    using True by (simp add: diffMinutes_gt)
next
  case False
  then have "\<not> isExpired w now r"
    by (simp add: isExpired_def)
  moreover from this False have "getStatus w now r \<noteq> ''Expired''"
    by (simp add: getStatus_def)
  moreover from False have "statusLabel w now r \<noteq> ''Expired''"
    by (simp add: statusLabel_def)
  ultimately show ?thesis
    using False by simp
qed

text \<open>
  The examples of the specification, with the expiry 180, in the table and in the popup: a
  warning of 200 minutes ago is Expired, one of 10 minutes ago is Warning.
\<close>

lemma warning_flip_examples:
  "statusLabel 180 (200 * 60000) (exampleRecord 1 7 (Some ''Warning'') ''Yes'' False 0) = ''Expired''"
  "popupStatus 180 (200 * 60000) (exampleRecord 1 7 (Some ''Warning'') ''Yes'' False 0) = ''Expired''"
  "statusLabel 180 (10 * 60000) (exampleRecord 1 7 (Some ''Warning'') ''Yes'' False 0) = ''Warning''"
  "popupStatus 180 (10 * 60000) (exampleRecord 1 7 (Some ''Warning'') ''Yes'' False 0) = ''Warning''"
  "statusLabel 180 (200 * 60000) (exampleRecord 1 7 (Some ''5 Sec'') ''Yes'' False 0) \<noteq> ''Expired''"
  by (simp_all add: popupStatus_nonzero statusLabel_def exampleRecord_def diffMinutes_def)

text \<open>
  In the popup the bound is \<open>expiryMins\<close> of the configured expiry: the flip is at the
  configured expiry when that is not 0, and at 180 minutes when it is 0.
\<close>

lemma popup_warning_flip:
  "penalty_description r = Some ''Warning'' \<Longrightarrow>
     popupStatus w now r =
       (if diffMinutes now (rec_timestamp r) > (if w = 0 then 180 else w)
        then ''Expired'' else ''Warning'')"
  by (simp add: popupStatus_def getStatus_def isExpired_def expiryMins_def)

text \<open>
  C2. The popup does not flip a warning to Expired when the minutes elapsed exceed the
  configured expiry, if that expiry is 0. Ten minutes after the timestamp the elapsed
  minutes exceed 0, \<open>isExpired\<close> of the component holds and the table shows Expired; in the
  popup \<open>isExpired\<close> is evaluated with the constant 180 that \<open>handleExpand\<close> wrote for the
  expiry 0, it does not hold, and the popup shows Warning.
\<close>

theorem popup_expiry_ignores_zero:
  "diffMinutes (10 * 60000) (rec_timestamp (exampleRecord 1 7 (Some ''Warning'') ''Yes'' False 0)) > 0 \<and>
   isExpired 0 (10 * 60000) (exampleRecord 1 7 (Some ''Warning'') ''Yes'' False 0) \<and>
   statusLabel 0 (10 * 60000) (exampleRecord 1 7 (Some ''Warning'') ''Yes'' False 0) = ''Expired'' \<and>
   expiryMins 0 = 180 \<and>
   \<not> isExpired (expiryMins 0) (10 * 60000) (exampleRecord 1 7 (Some ''Warning'') ''Yes'' False 0) \<and>
   popupStatus 0 (10 * 60000) (exampleRecord 1 7 (Some ''Warning'') ''Yes'' False 0) = ''Warning''"
proof -
  let ?r = "exampleRecord 1 7 (Some ''Warning'') ''Yes'' False 0"
  have w: "penalty_description ?r = Some ''Warning''" and t: "rec_timestamp ?r = 0"
    by (simp_all add: exampleRecord_def)
  have m: "diffMinutes (10 * 60000) (rec_timestamp ?r) = 10"
    by (simp add: t diffMinutes_def)
  have e: "expiryMins 0 = 180"
    by (simp add: expiryMins_def)
  have a: "isExpired 0 (10 * 60000) ?r" and b: "\<not> isExpired (expiryMins 0) (10 * 60000) ?r"
    using w m by (simp_all add: isExpired_def e)
  have l: "statusLabel 0 (10 * 60000) ?r = ''Expired''"
    using w m by (simp add: statusLabel_def)
  have p: "popupStatus 0 (10 * 60000) ?r = ''Warning''"
    using w b by (simp add: popupStatus_def getStatus_def)
  from m e a b l p show ?thesis by simp
qed

section \<open>Applying a penalty\<close>

lemma handleApplyPenalty_mem:
  "r \<in> set (handleApplyPenalty ident infs) \<longleftrightarrow>
     (\<exists>x \<in> set infs. r = (if inf_id x = ident then x\<lparr>penaltyApplied := True\<rparr> else x))"
  unfolding handleApplyPenalty_def set_map by blast

lemma handleApplyPenalty_idem:
  "handleApplyPenalty ident (handleApplyPenalty ident infs) = handleApplyPenalty ident infs"
  by (induction infs) (simp_all add: handleApplyPenalty_def)

lemma handleApplyPenalty_taken:
  assumes "r \<in> set (handleApplyPenalty ident infs)" and "inf_id r = ident"
  shows "penaltyApplied r"
proof -
  from assms(1) obtain x
    where r: "r = (if inf_id x = ident then x\<lparr>penaltyApplied := True\<rparr> else x)"
    unfolding handleApplyPenalty_mem by blast
  show ?thesis
  proof (cases "inf_id x = ident")
    case True
    with r show ?thesis by simp
  next
    case False
    with r have "r = x" by simp
    with assms(2) False show ?thesis by simp
  qed
qed

lemma handleApplyPenalty_marks:
  assumes "x \<in> set infs" and "inf_id x = ident"
  shows "x\<lparr>penaltyApplied := True\<rparr> \<in> set (handleApplyPenalty ident infs)"
  using assms unfolding handleApplyPenalty_mem by (intro bexI [of _ x]) simp_all

lemma handleApplyPenalty_keeps:
  assumes "x \<in> set infs" and "inf_id x \<noteq> ident"
  shows "x \<in> set (handleApplyPenalty ident infs)"
  using assms unfolding handleApplyPenalty_mem by (intro bexI [of _ x]) simp_all

text \<open>
  C4. Applying a penalty is idempotent: applying it twice to an id gives the same list as
  applying it once. After either call every record with that id is marked applied, and the
  list holds each record of the old list that has the id, with \<open>penaltyApplied\<close> set and
  nothing else changed, and each record with another id as it was; the list has the length
  of the old one.
\<close>

theorem applyPenalty_idempotent:
  "handleApplyPenalty ident (handleApplyPenalty ident infs) = handleApplyPenalty ident infs \<and>
   (\<forall>r \<in> set (handleApplyPenalty ident infs). inf_id r = ident \<longrightarrow> penaltyApplied r) \<and>
   (\<forall>r \<in> set (handleApplyPenalty ident (handleApplyPenalty ident infs)).
      inf_id r = ident \<longrightarrow> penaltyApplied r) \<and>
   (ident \<in> inf_id ` set infs \<longrightarrow>
      (\<exists>r \<in> set (handleApplyPenalty ident infs). inf_id r = ident \<and> penaltyApplied r)) \<and>
   (\<forall>x \<in> set infs. inf_id x = ident \<longrightarrow>
      x\<lparr>penaltyApplied := True\<rparr> \<in> set (handleApplyPenalty ident infs) \<and>
      x\<lparr>penaltyApplied := True\<rparr> \<in> set (handleApplyPenalty ident (handleApplyPenalty ident infs))) \<and>
   (\<forall>x \<in> set infs. inf_id x \<noteq> ident \<longrightarrow>
      x \<in> set (handleApplyPenalty ident infs) \<and>
      x \<in> set (handleApplyPenalty ident (handleApplyPenalty ident infs))) \<and>
   (\<forall>r \<in> set (handleApplyPenalty ident infs).
      \<exists>x \<in> set infs. r = (if inf_id x = ident then x\<lparr>penaltyApplied := True\<rparr> else x)) \<and>
   length (handleApplyPenalty ident infs) = length infs \<and>
   length (handleApplyPenalty ident (handleApplyPenalty ident infs)) = length infs"
proof (intro conjI ballI impI)
  show "handleApplyPenalty ident (handleApplyPenalty ident infs) = handleApplyPenalty ident infs"
    by (rule handleApplyPenalty_idem)
next
  fix r assume "r \<in> set (handleApplyPenalty ident infs)" "inf_id r = ident"
  then show "penaltyApplied r" by (rule handleApplyPenalty_taken)
next
  fix r assume "r \<in> set (handleApplyPenalty ident (handleApplyPenalty ident infs))"
    "inf_id r = ident"
  then show "penaltyApplied r" by (rule handleApplyPenalty_taken)
next
  assume "ident \<in> inf_id ` set infs"
  then obtain x where x: "x \<in> set infs" "inf_id x = ident" by blast
  then have "x\<lparr>penaltyApplied := True\<rparr> \<in> set (handleApplyPenalty ident infs)"
    by (rule handleApplyPenalty_marks)
  moreover from x have "inf_id (x\<lparr>penaltyApplied := True\<rparr>) = ident" by simp
  moreover have "penaltyApplied (x\<lparr>penaltyApplied := True\<rparr>)" by simp
  ultimately show "\<exists>r \<in> set (handleApplyPenalty ident infs). inf_id r = ident \<and> penaltyApplied r"
    by blast
next
  fix x assume x: "x \<in> set infs" "inf_id x = ident"
  then show "x\<lparr>penaltyApplied := True\<rparr> \<in> set (handleApplyPenalty ident infs)"
    by (rule handleApplyPenalty_marks)
  then show "x\<lparr>penaltyApplied := True\<rparr> \<in> set (handleApplyPenalty ident (handleApplyPenalty ident infs))"
    by (simp add: handleApplyPenalty_idem)
next
  fix x assume x: "x \<in> set infs" "inf_id x \<noteq> ident"
  then show "x \<in> set (handleApplyPenalty ident infs)"
    by (rule handleApplyPenalty_keeps)
  then show "x \<in> set (handleApplyPenalty ident (handleApplyPenalty ident infs))"
    by (simp add: handleApplyPenalty_idem)
next
  fix r assume "r \<in> set (handleApplyPenalty ident infs)"
  then show "\<exists>x \<in> set infs. r = (if inf_id x = ident then x\<lparr>penaltyApplied := True\<rparr> else x)"
    by (simp only: handleApplyPenalty_mem)
next
  show "length (handleApplyPenalty ident infs) = length infs"
    by (simp add: handleApplyPenalty_def)
  then show "length (handleApplyPenalty ident (handleApplyPenalty ident infs)) = length infs"
    by (simp add: handleApplyPenalty_idem)
qed

theorem applyPenalty_idempotent_witness:
  "''1'' \<in> inf_id ` set (sampleData 0) \<and>
   handleApplyPenalty ''1'' (handleApplyPenalty ''1'' (sampleData 0)) =
     handleApplyPenalty ''1'' (sampleData 0) \<and>
   (\<exists>r \<in> set (handleApplyPenalty ''1'' (sampleData 0)). inf_id r = ''1'' \<and> penaltyApplied r) \<and>
   penaltyApplied (hd (handleApplyPenalty ''1'' (sampleData 0))) \<and>
   (sampleData 0 ! 0)\<lparr>penaltyApplied := True\<rparr> \<in> set (handleApplyPenalty ''1'' (sampleData 0)) \<and>
   (sampleData 0 ! 0)\<lparr>penaltyApplied := True\<rparr>
     \<in> set (handleApplyPenalty ''1'' (handleApplyPenalty ''1'' (sampleData 0))) \<and>
   sampleData 0 ! 1 \<in> set (handleApplyPenalty ''1'' (sampleData 0)) \<and>
   length (handleApplyPenalty ''1'' (sampleData 0)) = 4"
proof -
  have p: "''1'' \<in> inf_id ` set (sampleData 0)"
    by (simp add: sampleData_def)
  have h: "hd (handleApplyPenalty ''1'' (sampleData 0)) \<in> set (handleApplyPenalty ''1'' (sampleData 0))"
    "inf_id (hd (handleApplyPenalty ''1'' (sampleData 0))) = ''1''"
    by (simp_all add: sampleData_def handleApplyPenalty_def)
  have m: "sampleData 0 ! 0 \<in> set (sampleData 0)" "inf_id (sampleData 0 ! 0) = ''1''"
    "sampleData 0 ! 1 \<in> set (sampleData 0)" "inf_id (sampleData 0 ! 1) \<noteq> ''1''"
    "length (sampleData 0) = 4"
    by (simp_all add: sampleData_def)
  note t = applyPenalty_idempotent [of "''1''" "sampleData 0"]
  from t have 1: "handleApplyPenalty ''1'' (handleApplyPenalty ''1'' (sampleData 0)) =
      handleApplyPenalty ''1'' (sampleData 0)"
    by (rule conjunct1)
  from t p have 2: "\<exists>r \<in> set (handleApplyPenalty ''1'' (sampleData 0)). inf_id r = ''1'' \<and> penaltyApplied r"
    by blast
  from t h have 3: "penaltyApplied (hd (handleApplyPenalty ''1'' (sampleData 0)))"
    by blast
  from t m(1,2) have 4: "(sampleData 0 ! 0)\<lparr>penaltyApplied := True\<rparr>
      \<in> set (handleApplyPenalty ''1'' (sampleData 0))"
    by blast
  from 4 1 have 5: "(sampleData 0 ! 0)\<lparr>penaltyApplied := True\<rparr>
      \<in> set (handleApplyPenalty ''1'' (handleApplyPenalty ''1'' (sampleData 0)))"
    by simp
  from t m(3,4) have 6: "sampleData 0 ! 1 \<in> set (handleApplyPenalty ''1'' (sampleData 0))"
    by blast
  from t m(5) have 7: "length (handleApplyPenalty ''1'' (sampleData 0)) = 4"
    by simp
  from p 1 2 3 4 5 6 7 show ?thesis by blast
qed

text \<open>
  C10. Applying a penalty changes at most the applied flag of the target: the list keeps
  its length, every record with another id stays as it is, a record with the id differs
  from the old one only by \<open>penaltyApplied\<close>, and when no record has the id the list is
  unchanged.
\<close>

theorem applyPenalty_frame:
  "length (handleApplyPenalty ident infs) = length infs \<and>
   (\<forall>i < length infs. inf_id (infs ! i) \<noteq> ident \<longrightarrow>
      handleApplyPenalty ident infs ! i = infs ! i) \<and>
   (\<forall>i < length infs. inf_id (infs ! i) = ident \<longrightarrow>
      handleApplyPenalty ident infs ! i = (infs ! i)\<lparr>penaltyApplied := True\<rparr> \<and>
      inf_id (handleApplyPenalty ident infs ! i) = inf_id (infs ! i) \<and>
      kartNumber (handleApplyPenalty ident infs ! i) = kartNumber (infs ! i) \<and>
      turn (handleApplyPenalty ident infs ! i) = turn (infs ! i) \<and>
      observer (handleApplyPenalty ident infs ! i) = observer (infs ! i) \<and>
      infringement (handleApplyPenalty ident infs ! i) = infringement (infs ! i) \<and>
      penaltyDescription (handleApplyPenalty ident infs ! i) = penaltyDescription (infs ! i) \<and>
      timestamp (handleApplyPenalty ident infs ! i) = timestamp (infs ! i)) \<and>
   (ident \<notin> inf_id ` set infs \<longrightarrow> handleApplyPenalty ident infs = infs)"
proof (intro conjI)
  show "length (handleApplyPenalty ident infs) = length infs"
    by (simp add: handleApplyPenalty_def)
  show "\<forall>i < length infs. inf_id (infs ! i) \<noteq> ident \<longrightarrow>
      handleApplyPenalty ident infs ! i = infs ! i"
    by (simp add: handleApplyPenalty_def)
  show "\<forall>i < length infs. inf_id (infs ! i) = ident \<longrightarrow>
      handleApplyPenalty ident infs ! i = (infs ! i)\<lparr>penaltyApplied := True\<rparr> \<and>
      inf_id (handleApplyPenalty ident infs ! i) = inf_id (infs ! i) \<and>
      kartNumber (handleApplyPenalty ident infs ! i) = kartNumber (infs ! i) \<and>
      turn (handleApplyPenalty ident infs ! i) = turn (infs ! i) \<and>
      observer (handleApplyPenalty ident infs ! i) = observer (infs ! i) \<and>
      infringement (handleApplyPenalty ident infs ! i) = infringement (infs ! i) \<and>
      penaltyDescription (handleApplyPenalty ident infs ! i) = penaltyDescription (infs ! i) \<and>
      timestamp (handleApplyPenalty ident infs ! i) = timestamp (infs ! i)"
    by (simp add: handleApplyPenalty_def)
  show "ident \<notin> inf_id ` set infs \<longrightarrow> handleApplyPenalty ident infs = infs"
    by (auto simp: handleApplyPenalty_def intro!: map_idI)
qed

theorem applyPenalty_frame_witness:
  "length (handleApplyPenalty ''1'' (sampleData 0)) = 4 \<and>
   handleApplyPenalty ''1'' (sampleData 0) ! 0 = (sampleData 0 ! 0)\<lparr>penaltyApplied := True\<rparr> \<and>
   handleApplyPenalty ''1'' (sampleData 0) ! 1 = sampleData 0 ! 1 \<and>
   handleApplyPenalty ''1'' (sampleData 0) ! 2 = sampleData 0 ! 2 \<and>
   handleApplyPenalty ''1'' (sampleData 0) ! 3 = sampleData 0 ! 3 \<and>
   handleApplyPenalty ''9'' (sampleData 0) = sampleData 0"
proof -
  have len: "length (sampleData 0) = 4"
    by (simp add: sampleData_def)
  have ids: "inf_id (sampleData 0 ! 0) = ''1''" "inf_id (sampleData 0 ! 1) \<noteq> ''1''"
    "inf_id (sampleData 0 ! 2) \<noteq> ''1''" "inf_id (sampleData 0 ! 3) \<noteq> ''1''"
    "''9'' \<notin> inf_id ` set (sampleData 0)"
    by (simp_all add: sampleData_def)
  from len ids applyPenalty_frame [of "''1''" "sampleData 0"]
    applyPenalty_frame [of "''9''" "sampleData 0"]
  show ?thesis by simp
qed

section \<open>Deleting a record\<close>

lemma handleDeleteInfringement_mem:
  "r \<in> set (handleDeleteInfringement ident infs) \<longleftrightarrow> r \<in> set infs \<and> inf_id r \<noteq> ident"
  by (simp add: handleDeleteInfringement_def)

lemma pendingPenalties_mem:
  "r \<in> set (pendingPenalties infs) \<longleftrightarrow>
     r \<in> set infs \<and> \<not> penaltyApplied r \<and> penaltyDescription r \<noteq> ''Warning''"
  by (simp add: pendingPenalties_def)

lemma handleDeleteInfringement_api_ok:
  assumes "deleteInfringement ident = Inr ()"
  shows "st_infringements (handleDeleteInfringement_api deleteInfringement ident st) =
           filter (\<lambda>entry. rec_id entry \<noteq> ident) (st_infringements st)"
    and "st_pendingPenalties (handleDeleteInfringement_api deleteInfringement ident st) =
           filter (\<lambda>penalty. rec_id penalty \<noteq> ident) (st_pendingPenalties st)"
  using assms by (simp_all add: handleDeleteInfringement_api_def)

lemma handleDeleteInfringement_api_failed:
  assumes "deleteInfringement ident = Inl message"
  shows "st_infringements (handleDeleteInfringement_api deleteInfringement ident st) = st_infringements st"
    and "st_pendingPenalties (handleDeleteInfringement_api deleteInfringement ident st) =
           st_pendingPenalties st"
    and "\<exists>d. st_toasts (handleDeleteInfringement_api deleteInfringement ident st) =
           st_toasts st @ [ToastError ''Error Deleting Infringement'' d]"
  using assms by (simp_all add: handleDeleteInfringement_api_def)

text \<open>
  C6. Deleting a record removes it from the infringement list and from the pending-penalty
  list, and keeps every record with another id in both. In the local-state application the
  pending list is computed from the infringement list; in \<open>App.tsx\<close> both lists are state and
  are filtered once the request has returned.
\<close>

theorem delete_removes:
  "(\<forall>r \<in> set (handleDeleteInfringement ident infs). inf_id r \<noteq> ident) \<and>
   (\<forall>r \<in> set (pendingPenalties (handleDeleteInfringement ident infs)). inf_id r \<noteq> ident) \<and>
   (\<forall>r \<in> set infs. inf_id r \<noteq> ident \<longrightarrow> r \<in> set (handleDeleteInfringement ident infs)) \<and>
   (\<forall>r \<in> set (pendingPenalties infs). inf_id r \<noteq> ident \<longrightarrow>
      r \<in> set (pendingPenalties (handleDeleteInfringement ident infs))) \<and>
   (deleteInfringement n = Inr () \<longrightarrow>
      (\<forall>r \<in> set (st_infringements (handleDeleteInfringement_api deleteInfringement n st)).
         rec_id r \<noteq> n) \<and>
      (\<forall>p \<in> set (st_pendingPenalties (handleDeleteInfringement_api deleteInfringement n st)).
         rec_id p \<noteq> n) \<and>
      (\<forall>r \<in> set (st_infringements st). rec_id r \<noteq> n \<longrightarrow>
         r \<in> set (st_infringements (handleDeleteInfringement_api deleteInfringement n st))) \<and>
      (\<forall>p \<in> set (st_pendingPenalties st). rec_id p \<noteq> n \<longrightarrow>
         p \<in> set (st_pendingPenalties (handleDeleteInfringement_api deleteInfringement n st))))"
proof (intro conjI impI)
  show "\<forall>r \<in> set (handleDeleteInfringement ident infs). inf_id r \<noteq> ident"
    by (simp add: handleDeleteInfringement_mem)
  show "\<forall>r \<in> set (pendingPenalties (handleDeleteInfringement ident infs)). inf_id r \<noteq> ident"
    by (simp add: pendingPenalties_mem handleDeleteInfringement_mem)
  show "\<forall>r \<in> set infs. inf_id r \<noteq> ident \<longrightarrow> r \<in> set (handleDeleteInfringement ident infs)"
    by (simp add: handleDeleteInfringement_mem)
  show "\<forall>r \<in> set (pendingPenalties infs). inf_id r \<noteq> ident \<longrightarrow>
      r \<in> set (pendingPenalties (handleDeleteInfringement ident infs))"
    by (simp add: pendingPenalties_mem handleDeleteInfringement_mem)
next
  assume ok: "deleteInfringement n = Inr ()"
  show "\<forall>r \<in> set (st_infringements (handleDeleteInfringement_api deleteInfringement n st)).
         rec_id r \<noteq> n"
    using ok by (simp add: handleDeleteInfringement_api_def)
  show "\<forall>p \<in> set (st_pendingPenalties (handleDeleteInfringement_api deleteInfringement n st)).
         rec_id p \<noteq> n"
    using ok by (simp add: handleDeleteInfringement_api_def)
  show "\<forall>r \<in> set (st_infringements st). rec_id r \<noteq> n \<longrightarrow>
         r \<in> set (st_infringements (handleDeleteInfringement_api deleteInfringement n st))"
    using ok by (simp add: handleDeleteInfringement_api_def)
  show "\<forall>p \<in> set (st_pendingPenalties st). rec_id p \<noteq> n \<longrightarrow>
         p \<in> set (st_pendingPenalties (handleDeleteInfringement_api deleteInfringement n st))"
    using ok by (simp add: handleDeleteInfringement_api_def)
qed

theorem delete_removes_witness:
  "map inf_id (handleDeleteInfringement ''1'' (sampleData 0)) = [''2'', ''3'', ''4''] \<and>
   map inf_id (pendingPenalties (sampleData 0)) = [''1''] \<and>
   sampleData 0 ! 0 \<notin> set (handleDeleteInfringement ''1'' (sampleData 0)) \<and>
   sampleData 0 ! 0 \<notin> set (pendingPenalties (handleDeleteInfringement ''1'' (sampleData 0))) \<and>
   sampleData 0 ! 1 \<in> set (handleDeleteInfringement ''1'' (sampleData 0)) \<and>
   exampleRecord 1 7 (Some ''5 Sec'') ''Yes'' False 0
     \<notin> set (st_infringements (handleDeleteInfringement_api (\<lambda>_. Inr ()) 1 exampleState)) \<and>
   exampleRecord 1 7 (Some ''5 Sec'') ''Yes'' False 0
     \<notin> set (st_pendingPenalties (handleDeleteInfringement_api (\<lambda>_. Inr ()) 1 exampleState)) \<and>
   exampleRecord 2 42 (Some ''Warning'') ''Yes'' False 0
     \<in> set (st_infringements (handleDeleteInfringement_api (\<lambda>_. Inr ()) 1 exampleState))"
proof -
  have a: "inf_id (sampleData 0 ! 0) = ''1''" "sampleData 0 ! 1 \<in> set (sampleData 0)"
    "inf_id (sampleData 0 ! 1) \<noteq> ''1''"
    by (simp_all add: sampleData_def)
  have b: "map inf_id (handleDeleteInfringement ''1'' (sampleData 0)) = [''2'', ''3'', ''4'']"
    "map inf_id (pendingPenalties (sampleData 0)) = [''1'']"
    by (simp_all add: sampleData_def handleDeleteInfringement_def pendingPenalties_def)
  have c: "rec_id (exampleRecord 1 7 (Some ''5 Sec'') ''Yes'' False 0) = 1"
    "rec_id (exampleRecord 2 42 (Some ''Warning'') ''Yes'' False 0) \<noteq> 1"
    "exampleRecord 2 42 (Some ''Warning'') ''Yes'' False 0 \<in> set (st_infringements exampleState)"
    by (simp_all add: exampleRecord_def exampleState_def)
  from a b c delete_removes [of "''1''" "sampleData 0" "\<lambda>_. Inr ()" 1 exampleState]
  show ?thesis by blast
qed

section \<open>Editing a record\<close>

lemma handleSave_Some:
  "handleSave (Some r) f = Some u \<longleftrightarrow>
     kartNumberInput f \<noteq> [] \<and> turnInput f \<noteq> [] \<and> observerInput f \<noteq> [] \<and>
     infringementInput f \<noteq> [] \<and> penaltyDescriptionInput f \<noteq> [] \<and>
     u = r\<lparr>kartNumber := kartNumberInput f, turn := turnInput f,
            observer := observerInput f, infringement := infringementInput f,
            penaltyDescription := penaltyDescriptionInput f\<rparr>"
  by (auto simp: handleSave_def)

lemma handleSaveEdit_ids: "map inf_id (handleSaveEdit u infs) = map inf_id infs"
  by (induction infs) (simp_all add: handleSaveEdit_def)

lemma handleSaveEdit_timestamps:
  assumes "distinct (map inf_id infs)" "r \<in> set infs" "inf_id u = inf_id r"
    "timestamp u = timestamp r"
  shows "map timestamp (handleSaveEdit u infs) = map timestamp infs"
proof -
  have "timestamp (if inf_id x = inf_id u then u else x) = timestamp x" if "x \<in> set infs" for x
  proof (cases "inf_id x = inf_id u")
    case True
    with assms that have "x = r"
      by (metis distinct_map inj_on_def)
    with True assms show ?thesis by simp
  next
    case False
    then show ?thesis by simp
  qed
  then show ?thesis
    unfolding handleSaveEdit_def by (simp add: map_eq_conv)
qed

text \<open>
  C9. An edit never changes the id or the timestamp: the record that \<open>handleSave\<close> hands to
  \<open>onSave\<close> has the id and the timestamp of the record being edited, whatever the five
  strings are; after \<open>handleSaveEdit\<close> the list has the same ids in the same order, and, the
  ids being distinct, the same timestamps, and it holds the edited record.
\<close>

theorem update_keeps_id_and_timestamp:
  "handleSave (Some r) f = Some u \<longrightarrow>
     inf_id u = inf_id r \<and> timestamp u = timestamp r \<and>
     map inf_id (handleSaveEdit u infs) = map inf_id infs \<and>
     (distinct (map inf_id infs) \<and> r \<in> set infs \<longrightarrow>
        map timestamp (handleSaveEdit u infs) = map timestamp infs \<and>
        u \<in> set (handleSaveEdit u infs))"
proof (intro impI conjI)
  assume s: "handleSave (Some r) f = Some u"
  then show id: "inf_id u = inf_id r" and ts: "timestamp u = timestamp r"
    by (simp_all add: handleSave_Some)
  show "map inf_id (handleSaveEdit u infs) = map inf_id infs"
    by (rule handleSaveEdit_ids)
  assume d: "distinct (map inf_id infs) \<and> r \<in> set infs"
  with id ts show "map timestamp (handleSaveEdit u infs) = map timestamp infs"
    by (intro handleSaveEdit_timestamps [of infs r u]) simp_all
  from d id have "(if inf_id r = inf_id u then u else r) \<in> set (handleSaveEdit u infs)"
    unfolding handleSaveEdit_def set_map by (intro imageI) simp
  with id show "u \<in> set (handleSaveEdit u infs)" by simp
qed

theorem update_keeps_id_and_timestamp_witness:
  "handleSave (Some (sampleData 0 ! 0)) exampleEdit =
     Some ((sampleData 0 ! 0)\<lparr>kartNumber := ''7'', turn := ''Turn 4'', observer := ''J'',
            infringement := ''Blocking'', penaltyDescription := ''10 Sec''\<rparr>) \<and>
   inf_id ((sampleData 0 ! 0)\<lparr>kartNumber := ''7'', turn := ''Turn 4'', observer := ''J'',
            infringement := ''Blocking'', penaltyDescription := ''10 Sec''\<rparr>) = inf_id (sampleData 0 ! 0) \<and>
   map inf_id (handleSaveEdit ((sampleData 0 ! 0)\<lparr>kartNumber := ''7'', turn := ''Turn 4'',
            observer := ''J'', infringement := ''Blocking'', penaltyDescription := ''10 Sec''\<rparr>)
          (sampleData 0)) = map inf_id (sampleData 0) \<and>
   map timestamp (handleSaveEdit ((sampleData 0 ! 0)\<lparr>kartNumber := ''7'', turn := ''Turn 4'',
            observer := ''J'', infringement := ''Blocking'', penaltyDescription := ''10 Sec''\<rparr>)
          (sampleData 0)) = map timestamp (sampleData 0)"
proof -
  let ?u = "(sampleData 0 ! 0)\<lparr>kartNumber := ''7'', turn := ''Turn 4'', observer := ''J'',
            infringement := ''Blocking'', penaltyDescription := ''10 Sec''\<rparr>"
  have s: "handleSave (Some (sampleData 0 ! 0)) exampleEdit = Some ?u"
    by (simp add: handleSave_def exampleEdit_def)
  have d: "distinct (map inf_id (sampleData 0))" "sampleData 0 ! 0 \<in> set (sampleData 0)"
    by (simp_all add: sampleData_def)
  from s d update_keeps_id_and_timestamp [of "sampleData 0 ! 0" exampleEdit ?u "sampleData 0"]
  show ?thesis by blast
qed

section \<open>Operations on an absent id\<close>

lemma handleApplyPenalty_absent:
  "ident \<notin> inf_id ` set infs \<Longrightarrow> handleApplyPenalty ident infs = infs"
  by (auto simp: handleApplyPenalty_def intro!: map_idI)

lemma handleSaveEdit_absent:
  "inf_id u \<notin> inf_id ` set infs \<Longrightarrow> handleSaveEdit u infs = infs"
proof -
  assume a: "inf_id u \<notin> inf_id ` set infs"
  have "(if inf_id x = inf_id u then u else x) = x" if "x \<in> set infs" for x
    using a that by (cases "inf_id x = inf_id u") (simp_all add: image_iff, metis)
  then show ?thesis
    unfolding handleSaveEdit_def by (intro map_idI)
qed

lemma handleDeleteInfringement_absent:
  "ident \<notin> inf_id ` set infs \<Longrightarrow> handleDeleteInfringement ident infs = infs"
  by (auto simp: handleDeleteInfringement_def intro!: filter_True)

text \<open>
  In the local-state application an operation on an id that no record has does not fail:
  it returns the list as it was. So it is after the record with that id has been deleted.
\<close>

theorem absent_id_counterexample:
  "''9'' \<notin> inf_id ` set (sampleData 0) \<and>
   applyPenaltyResult ''9'' (sampleData 0) = Inr (sampleData 0) \<and>
   applyPenaltyResult ''9'' (sampleData 0) \<noteq> Inl NotFound \<and>
   updateResult ((sampleData 0 ! 0)\<lparr>inf_id := ''9''\<rparr>) (sampleData 0) = Inr (sampleData 0) \<and>
   updateResult ((sampleData 0 ! 0)\<lparr>inf_id := ''9''\<rparr>) (sampleData 0) \<noteq> Inl NotFound \<and>
   deleteResult ''9'' (sampleData 0) = Inr (sampleData 0) \<and>
   deleteResult ''9'' (sampleData 0) \<noteq> Inl NotFound \<and>
   ''1'' \<notin> inf_id ` set (handleDeleteInfringement ''1'' (sampleData 0)) \<and>
   applyPenaltyResult ''1'' (handleDeleteInfringement ''1'' (sampleData 0)) =
     Inr (handleDeleteInfringement ''1'' (sampleData 0))"
  by (simp add: sampleData_def applyPenaltyResult_def updateResult_def deleteResult_def
      handleApplyPenalty_def handleSaveEdit_def handleDeleteInfringement_def)

text \<open>
  C7, as the handlers have it. For every list and every id that no record of the list has,
  applying a penalty, saving an edit and deleting return the list unchanged and report no
  failure; an id is absent once its record has been deleted, and applying a penalty or
  deleting again then returns the list unchanged.
\<close>

theorem absent_id_is_noop:
  "(ident \<notin> inf_id ` set infs \<longrightarrow>
      applyPenaltyResult ident infs = Inr infs \<and>
      deleteResult ident infs = Inr infs \<and>
      (\<forall>u. inf_id u = ident \<longrightarrow> updateResult u infs = Inr infs)) \<and>
   ident \<notin> inf_id ` set (handleDeleteInfringement ident infs) \<and>
   applyPenaltyResult ident (handleDeleteInfringement ident infs) =
     Inr (handleDeleteInfringement ident infs) \<and>
   deleteResult ident (handleDeleteInfringement ident infs) =
     Inr (handleDeleteInfringement ident infs)"
proof -
  have gone: "ident \<notin> inf_id ` set (handleDeleteInfringement ident infs)"
    by (auto simp: handleDeleteInfringement_def)
  have 1: "applyPenaltyResult ident xs = Inr xs \<and> deleteResult ident xs = Inr xs \<and>
      (\<forall>u. inf_id u = ident \<longrightarrow> updateResult u xs = Inr xs)"
    if "ident \<notin> inf_id ` set xs" for xs
    using that
    by (simp add: applyPenaltyResult_def deleteResult_def updateResult_def
        handleApplyPenalty_absent handleDeleteInfringement_absent handleSaveEdit_absent)
  from 1 [of infs] 1 [OF gone] gone show ?thesis by blast
qed

theorem absent_id_is_noop_witness:
  "''9'' \<notin> inf_id ` set (sampleData 0) \<and>
   applyPenaltyResult ''9'' (sampleData 0) = Inr (sampleData 0) \<and>
   deleteResult ''9'' (sampleData 0) = Inr (sampleData 0) \<and>
   updateResult ((sampleData 0 ! 0)\<lparr>inf_id := ''9''\<rparr>) (sampleData 0) = Inr (sampleData 0)"
proof -
  have a: "''9'' \<notin> inf_id ` set (sampleData 0)"
    by (simp add: sampleData_def)
  have b: "inf_id ((sampleData 0 ! 0)\<lparr>inf_id := ''9''\<rparr>) = ''9''"
    by simp
  from a b absent_id_is_noop [of "''9''" "sampleData 0"] show ?thesis
    by blast
qed

section \<open>Creating a record\<close>

text \<open>
  A form with kart number, observer and infringement filled in but no turn, or no penalty,
  is not submitted: \<open>onSubmit\<close> is not called and the list stays as it was.
\<close>

theorem create_needs_turn_and_penalty_counterexample:
  "kartNumberInput (exampleEdit\<lparr>turnInput := []\<rparr>) = ''7'' \<and>
   observerInput (exampleEdit\<lparr>turnInput := []\<rparr>) = ''J'' \<and>
   infringementInput (exampleEdit\<lparr>turnInput := []\<rparr>) = ''Blocking'' \<and>
   handleSubmit (exampleEdit\<lparr>turnInput := []\<rparr>) 0 = None \<and>
   submitForm (exampleEdit\<lparr>turnInput := []\<rparr>) 0 ''u'' [] = [] \<and>
   handleSubmit (exampleEdit\<lparr>penaltyDescriptionInput := []\<rparr>) 0 = None \<and>
   submitForm (exampleEdit\<lparr>penaltyDescriptionInput := []\<rparr>) 0 ''u'' [] = []"
  by (simp add: exampleEdit_def handleSubmit_def submitForm_def)

text \<open>
  C8, as the form has it. \<open>handleSubmit\<close> requires all five strings (kart number, turn,
  observer, infringement and penalty) to be non-empty: with all five the record is created
  at the front of the list, unapplied and stamped with the current time; with one of them
  empty no record is created.
\<close>

theorem create_requires_all_five:
  "(handleSubmit f now = None \<longleftrightarrow>
      kartNumberInput f = [] \<or> turnInput f = [] \<or> observerInput f = [] \<or>
      infringementInput f = [] \<or> penaltyDescriptionInput f = []) \<and>
   (kartNumberInput f \<noteq> [] \<and> turnInput f \<noteq> [] \<and> observerInput f \<noteq> [] \<and>
    infringementInput f \<noteq> [] \<and> penaltyDescriptionInput f \<noteq> [] \<longrightarrow>
      submitForm f now uuid prev =
        \<lparr>kartNumber = kartNumberInput f, turn = turnInput f, observer = observerInput f,
         infringement = infringementInput f, penaltyDescription = penaltyDescriptionInput f,
         penaltyApplied = False, timestamp = now, inf_id = uuid\<rparr> # prev) \<and>
   (kartNumberInput f = [] \<or> turnInput f = [] \<or> observerInput f = [] \<or>
    infringementInput f = [] \<or> penaltyDescriptionInput f = [] \<longrightarrow>
      submitForm f now uuid prev = prev)"
proof (intro conjI impI)
  show "handleSubmit f now = None \<longleftrightarrow>
      kartNumberInput f = [] \<or> turnInput f = [] \<or> observerInput f = [] \<or>
      infringementInput f = [] \<or> penaltyDescriptionInput f = []"
    by (simp add: handleSubmit_def)
next
  assume "kartNumberInput f \<noteq> [] \<and> turnInput f \<noteq> [] \<and> observerInput f \<noteq> [] \<and>
    infringementInput f \<noteq> [] \<and> penaltyDescriptionInput f \<noteq> []"
  then show "submitForm f now uuid prev =
        \<lparr>kartNumber = kartNumberInput f, turn = turnInput f, observer = observerInput f,
         infringement = infringementInput f, penaltyDescription = penaltyDescriptionInput f,
         penaltyApplied = False, timestamp = now, inf_id = uuid\<rparr> # prev"
    by (simp add: submitForm_def handleSubmit_def handleNewInfringement_def)
next
  assume "kartNumberInput f = [] \<or> turnInput f = [] \<or> observerInput f = [] \<or>
    infringementInput f = [] \<or> penaltyDescriptionInput f = []"
  then have "handleSubmit f now = None"
    by (simp add: handleSubmit_def)
  then show "submitForm f now uuid prev = prev"
    by (simp add: submitForm_def)
qed

theorem create_requires_all_five_witness:
  "submitForm exampleEdit 5 ''u'' [] =
     [\<lparr>kartNumber = ''7'', turn = ''Turn 4'', observer = ''J'', infringement = ''Blocking'',
       penaltyDescription = ''10 Sec'', penaltyApplied = False, timestamp = 5, inf_id = ''u''\<rparr>] \<and>
   submitForm (exampleEdit\<lparr>observerInput := []\<rparr>) 5 ''u'' [] = []"
  using create_requires_all_five [of exampleEdit 5 "''u''" "[]"]
    create_requires_all_five [of "exampleEdit\<lparr>observerInput := []\<rparr>" 5 "''u''" "[]"]
  by (simp add: exampleEdit_def)

section \<open>The kart-number filter\<close>

subsection \<open>Trimming\<close>

lemma dropWhile_hd_id: "s = [] \<or> \<not> P (hd s) \<Longrightarrow> dropWhile P s = s"
  by (cases s) auto

lemma trim_id:
  assumes "s \<noteq> []" "\<not> isWhiteSpace (hd s)" "\<not> isWhiteSpace (last s)"
  shows "trim s = s"
proof -
  have "dropWhile isWhiteSpace s = s"
    using assms by (simp add: dropWhile_hd_id)
  moreover have "dropWhile isWhiteSpace (rev s) = rev s"
    using assms by (intro dropWhile_hd_id) (simp add: hd_rev)
  ultimately show ?thesis by (simp add: trim_def)
qed

lemma trim_ends:
  "trim s = [] \<or> (\<not> isWhiteSpace (hd (trim s)) \<and> \<not> isWhiteSpace (last (trim s)))"
proof (cases "trim s = []")
  case True
  then show ?thesis by simp
next
  case False
  let ?t = "dropWhile isWhiteSpace s"
  let ?u = "dropWhile isWhiteSpace (rev ?t)"
  have u: "trim s = rev ?u" by (simp add: trim_def)
  with False have une: "?u \<noteq> []" by simp
  then have l: "\<not> isWhiteSpace (hd ?u)" by (rule hd_dropWhile)
  have "rev ?t = takeWhile isWhiteSpace (rev ?t) @ ?u" by simp
  then have "?t = rev ?u @ rev (takeWhile isWhiteSpace (rev ?t))"
    by (metis rev_append rev_rev_ident)
  with une have "hd ?t = hd (rev ?u)" and "?t \<noteq> []"
    by (metis hd_append2 rev_is_Nil_conv, metis Nil_is_append_conv rev_is_Nil_conv une)
  moreover from \<open>?t \<noteq> []\<close> have "\<not> isWhiteSpace (hd ?t)" by (rule hd_dropWhile)
  ultimately have "\<not> isWhiteSpace (hd (trim s))" using u by simp
  moreover have "\<not> isWhiteSpace (last (trim s))"
    using l une u by (simp add: last_rev)
  ultimately show ?thesis by simp
qed

lemma trim_idem: "trim (trim s) = trim s"
proof (cases "trim s = []")
  case True
  moreover have "trim [] = []" by (simp add: trim_def)
  ultimately show ?thesis by simp
next
  case False
  with trim_ends [of s] show ?thesis by (intro trim_id) auto
qed

lemma Number_trim: "Number (trim s) = Number s"
  by (simp add: Number_def trim_idem)

subsection \<open>Printing an integer and reading it back\<close>

lemma isDigit_char_of: "d < 10 \<Longrightarrow> isDigit (char_of (48 + d :: nat))"
  by (simp add: isDigit_def)

lemma digitValue_char_of: "d < 10 \<Longrightarrow> digitValue (char_of (48 + d :: nat)) = d"
  by (simp add: digitValue_def)

lemma digitsValue_snoc: "digitsValue acc (xs @ [c]) = 10 * digitsValue acc xs + digitValue c"
  by (induction xs arbitrary: acc) simp_all

lemma natToString_nonempty: "natToString n \<noteq> []"
  by (subst natToString.simps) simp

lemma natToString_digits: "list_all isDigit (natToString n)"
proof (induction n rule: natToString.induct)
  case (1 n)
  show ?case
  proof (cases "n < 10")
    case True
    then show ?thesis by (subst natToString.simps) (simp add: isDigit_char_of)
  next
    case False
    with 1 show ?thesis by (subst natToString.simps) (simp add: isDigit_char_of)
  qed
qed

lemma digitsValue_natToString: "digitsValue 0 (natToString n) = n"
proof (induction n rule: natToString.induct)
  case (1 n)
  show ?case
  proof (cases "n < 10")
    case True
    then show ?thesis by (subst natToString.simps) (simp add: digitValue_char_of)
  next
    case False
    with 1 show ?thesis
      by (subst natToString.simps) (simp add: digitsValue_snoc digitValue_char_of)
  qed
qed

lemma isDigit_not_white: "isDigit c \<Longrightarrow> \<not> isWhiteSpace c"
  by (auto simp: isDigit_def isWhiteSpace_def)

lemma all_digits_unsignedDecimal:
  assumes "ds \<noteq> []" "list_all isDigit ds"
  shows "unsignedDecimal ds = Finite (of_nat (digitsValue 0 ds))"
proof -
  have tw: "takeWhile isDigit ds = ds" and dw: "dropWhile isDigit ds = []"
    using assms(2) by (simp_all add: list_all_iff)
  have "isDigit (hd ds)" using assms by (cases ds) simp_all
  then have "ds \<noteq> ''Infinity''" by (auto simp: isDigit_def)
  then show ?thesis
    using assms(1) by (simp add: unsignedDecimal_def tw dw exponentPart_def scale10_def)
qed

lemma all_digits_nonDecimal:
  assumes "list_all isDigit ds"
  shows "nonDecimalIntegerLiteral ds = None"
proof (cases ds)
  case Nil
  then show ?thesis by (simp add: nonDecimalIntegerLiteral_def)
next
  case (Cons c0 t)
  show ?thesis
  proof (cases t)
    case Nil
    with Cons show ?thesis by (simp add: nonDecimalIntegerLiteral_def)
  next
    case (Cons c1 r)
    with \<open>ds = c0 # t\<close> assms have "isDigit c1" by simp
    then have "c1 \<noteq> CHR ''x''" "c1 \<noteq> CHR ''X''" "c1 \<noteq> CHR ''o''" "c1 \<noteq> CHR ''O''"
      "c1 \<noteq> CHR ''b''" "c1 \<noteq> CHR ''B''"
      by (auto simp: isDigit_def)
    with Cons \<open>ds = c0 # t\<close> show ?thesis by (simp add: nonDecimalIntegerLiteral_def)
  qed
qed

lemma Number_natToString: "Number (natToString n) = Finite (of_nat n)"
proof -
  let ?ds = "natToString n"
  have ne: "?ds \<noteq> []" by (rule natToString_nonempty)
  have dg: "list_all isDigit ?ds" by (rule natToString_digits)
  from ne dg have "isDigit (hd ?ds)" "isDigit (last ?ds)"
    by (simp_all add: list_all_iff)
  then have tr: "trim ?ds = ?ds"
    using ne by (intro trim_id) (simp_all add: isDigit_not_white)
  have hd: "hd ?ds \<noteq> CHR ''+''" "hd ?ds \<noteq> CHR ''-''"
    using \<open>isDigit (hd ?ds)\<close> by (auto simp: isDigit_def)
  have "strDecimalLiteral ?ds = unsignedDecimal ?ds"
    using ne hd by (cases ?ds) (simp_all add: strDecimalLiteral_def)
  then show ?thesis
    using ne by (simp add: Number_def tr all_digits_nonDecimal [OF dg]
        all_digits_unsignedDecimal [OF ne dg] digitsValue_natToString)
qed

lemma Number_toString: "Number (toString k) = Finite (of_int k)"
proof (cases "k < 0")
  case False
  then show ?thesis by (simp add: toString_def Number_natToString)
next
  case True
  let ?ds = "natToString (nat (- k))"
  let ?s = "CHR ''-'' # ?ds"
  have ne: "?ds \<noteq> []" by (rule natToString_nonempty)
  have dg: "list_all isDigit ?ds" by (rule natToString_digits)
  from ne dg have "isDigit (last ?ds)" by (simp add: list_all_iff)
  then have "\<not> isWhiteSpace (last ?s)" using ne by (simp add: isDigit_not_white)
  moreover have "\<not> isWhiteSpace (hd ?s)" by (simp add: isWhiteSpace_def)
  ultimately have tr: "trim ?s = ?s" by (intro trim_id) simp_all
  have nd: "nonDecimalIntegerLiteral ?s = None"
    by (cases ?ds) (simp_all add: nonDecimalIntegerLiteral_def split: list.splits)
  have "strDecimalLiteral ?s = negate (unsignedDecimal ?ds)"
    by (simp add: strDecimalLiteral_def)
  also have "\<dots> = Finite (- of_nat (nat (- k)))"
    by (simp add: all_digits_unsignedDecimal [OF ne dg] digitsValue_natToString negate_def)
  also have "\<dots> = Finite (of_int k)" using True by simp
  finally show ?thesis using True by (simp add: Number_def tr nd toString_def)
qed

subsection \<open>What the filter keeps\<close>

lemma kart_matches:
  "(toString k = t \<or> strictEquals (Number (toString k)) (Number t)) \<longleftrightarrow>
     Number t = Finite (of_int k)"
proof -
  have "toString k = t \<Longrightarrow> Number t = Finite (of_int k)"
    using Number_toString [of k] by simp
  moreover have "strictEquals (Number (toString k)) (Number t) \<longleftrightarrow>
      Number t = Finite (of_int k)"
    by (auto simp: strictEquals_def Number_toString)
  ultimately show ?thesis by blast
qed

lemma filteredInfringements_eq:
  "filteredInfringements s infs =
     (if s = [] then infs
      else filter (\<lambda>r. Number s = Finite (of_int (kart_number r))) infs)"
  by (simp add: filteredInfringements_def kart_matches Number_trim)

lemma filteredInfringements_mem:
  "s \<noteq> [] \<Longrightarrow>
     r \<in> set (filteredInfringements s infs) \<longleftrightarrow>
       r \<in> set infs \<and> Number s = Finite (of_int (kart_number r))"
  by (simp add: filteredInfringements_eq)

lemma filteredInfringements_not_a_number:
  "s \<noteq> [] \<Longrightarrow> Number s = NaN \<Longrightarrow> filteredInfringements s infs = []"
  by (simp add: filteredInfringements_eq)

lemma refreshTable_filter_eq:
  "refreshTable_filter s d =
     (if toLowerCase (trim s) = [] then d
      else filter (\<lambda>r. Number (toLowerCase (trim s)) = Finite (of_int (kart_number r))) d)"
  by (simp add: refreshTable_filter_def kart_matches)

lemma Number_42: "Number ''42'' = Finite 42"
  by code_simp

lemma Number_blank: "Number '' '' = Finite 0" "trim '' '' = []" "Number [] = Finite 0"
  by code_simp+

lemma filteredInfringements_42:
  "filteredInfringements ''42''
     [exampleRecord 1 42 None ''Yes'' False 0, exampleRecord 2 420 None ''Yes'' False 0] =
     [exampleRecord 1 42 None ''Yes'' False 0]"
  "filteredInfringements '' 42 ''
     [exampleRecord 1 42 None ''Yes'' False 0, exampleRecord 2 420 None ''Yes'' False 0] =
     [exampleRecord 1 42 None ''Yes'' False 0]"
  "filteredInfringements ''abc''
     [exampleRecord 1 42 None ''Yes'' False 0, exampleRecord 2 420 None ''Yes'' False 0] = []"
  "filteredInfringements [] infs = infs"
  by (simp_all add: filteredInfringements_eq exampleRecord_def) code_simp+

text \<open>
  C5. The filter of the table tests the search string for emptiness before it trims it. A
  search string that consists of one space is therefore not empty, is trimmed to the empty
  string, which \<open>Number\<close> converts to 0, and the filter keeps the records of kart 0 and drops
  the others: the list is neither left unfiltered nor emptied. The popup's \<open>refreshTable\<close>
  trims first and leaves the list unfiltered on the same input.
\<close>

theorem blank_search_keeps_kart_zero:
  "filteredInfringements '' ''
     [exampleRecord 1 0 None ''Yes'' False 0, exampleRecord 2 42 None ''Yes'' False 0] =
     [exampleRecord 1 0 None ''Yes'' False 0] \<and>
   refreshTable_filter '' ''
     [exampleRecord 1 0 None ''Yes'' False 0, exampleRecord 2 42 None ''Yes'' False 0] =
     [exampleRecord 1 0 None ''Yes'' False 0, exampleRecord 2 42 None ''Yes'' False 0]"
proof -
  have "toLowerCase (trim '' '') = []"
    by code_simp
  then show ?thesis
    by (simp add: filteredInfringements_eq refreshTable_filter_def Number_blank exampleRecord_def)
qed

end
